theory Spec2Isabelle
  imports Main "HOL-Library.Word"
begin

unbundle bit_operations_syntax

section \<open>Go values used by the handlers\<close>

text \<open>
  A Go \<open>string\<close> and a \<open>[]byte\<close> are byte sequences: both are \<open>string\<close> here, a list of
  8-bit \<open>char\<close>s. \<open>uint32\<close> process ids, \<open>uint64\<close> inode numbers and \<open>int64\<close> offsets
  are words of that width; an offset is read signed (\<open>sint\<close>).
\<close>

type_synonym pid = "32 word"
type_synonym inode = "64 word"
type_synonym int64 = "64 word"

datatype errno = ENOENT | EACCES | EIO | EINVAL | EPERM | ENOTSUP

text \<open>
  The error values the sources build or compare with:
  \<open>fuse.IOerror{Code: c}\<close>, the sentinel \<open>io.EOF\<close>, \<open>errors.New(msg)\<close>,
  the protocol library's \<open>fuse.Errno\<close> constants (\<open>fuse.EPERM\<close>, \<open>fuse.ENOTSUP\<close>),
  \<open>fmt.Errorf("No supported handler for %v resource", path)\<close>, and any other error
  that host file I/O hands back.
\<close>

datatype error =
    IOerror errno
  | EOF
  | ErrorsNew string
  | FuseErrno errno
  | NoSupportedHandler string
  | HostError string

definition newline :: string where
  "newline = [CHR 0x0A]"

section \<open>Library functions: \<open>strconv.Atoi\<close> and \<open>strings.TrimSpace\<close>\<close>

datatype numError = ErrSyntax | ErrRange

definition isDigit :: "char \<Rightarrow> bool" where
  "isDigit c = (48 \<le> (of_char c :: nat) \<and> (of_char c :: nat) \<le> 57)"

definition digitVal :: "char \<Rightarrow> nat" where
  "digitVal c = (of_char c :: nat) - 48"

definition maxUint64 :: nat where
  "maxUint64 = 18446744073709551615"

text \<open>
  \<open>strconv.ParseUint(s, 10, 64)\<close> on a non-empty \<open>s\<close>: the bytes are scanned from the
  left; a byte that is no decimal digit is a syntax error, a value beyond 64 bits a range
  error, whichever comes first.
\<close>

fun parseUint :: "string \<Rightarrow> nat \<Rightarrow> numError + nat" where
  "parseUint [] n = Inr n"
| "parseUint (c # cs) n =
     (if \<not> isDigit c then Inl ErrSyntax
      else if n \<ge> maxUint64 div 10 + 1 then Inl ErrRange
      else if n * 10 + digitVal c > maxUint64 then Inl ErrRange
      else parseUint cs (n * 10 + digitVal c))"

text \<open>
  \<open>strconv.Atoi\<close> on a 64-bit platform: an optional sign, then at least one decimal
  digit and nothing else; the value must fit \<open>int64\<close>.
\<close>

definition Atoi :: "string \<Rightarrow> numError + int" where
  "Atoi s =
     (case s of
        [] \<Rightarrow> Inl ErrSyntax
      | c # cs \<Rightarrow>
          let neg = (c = CHR ''-'');
              ds = (if c = CHR ''+'' \<or> c = CHR ''-'' then cs else s)
          in if ds = [] then Inl ErrSyntax
             else (case parseUint ds 0 of
                     Inl e \<Rightarrow> Inl e
                   | Inr un \<Rightarrow>
                       if \<not> neg \<and> un \<ge> 2 ^ 63 then Inl ErrRange
                       else if neg \<and> un > 2 ^ 63 then Inl ErrRange
                       else Inr (if neg then - int un else int un)))"

text \<open>
  \<open>strings.TrimSpace\<close> removes the leading and the trailing runs of Unicode white space
  of a UTF-8 string. A white-space rune is one of the six ASCII bytes below or one of the
  code points U+0085, U+00A0, U+1680, U+2000..U+200A, U+2028, U+2029, U+202F, U+205F,
  U+3000, which only their (shortest) UTF-8 encodings decode to.
\<close>

definition asciiSpace :: "char \<Rightarrow> bool" where
  "asciiSpace c = (c \<in> set [CHR 0x09, CHR 0x0A, CHR 0x0B, CHR 0x0C, CHR 0x0D, CHR 0x20])"

definition spaceEncodings :: "string list" where
  "spaceEncodings =
     [[CHR 0xC2, CHR 0x85], [CHR 0xC2, CHR 0xA0], [CHR 0xE1, CHR 0x9A, CHR 0x80],
      [CHR 0xE2, CHR 0x80, CHR 0x80], [CHR 0xE2, CHR 0x80, CHR 0x81],
      [CHR 0xE2, CHR 0x80, CHR 0x82], [CHR 0xE2, CHR 0x80, CHR 0x83],
      [CHR 0xE2, CHR 0x80, CHR 0x84], [CHR 0xE2, CHR 0x80, CHR 0x85],
      [CHR 0xE2, CHR 0x80, CHR 0x86], [CHR 0xE2, CHR 0x80, CHR 0x87],
      [CHR 0xE2, CHR 0x80, CHR 0x88], [CHR 0xE2, CHR 0x80, CHR 0x89],
      [CHR 0xE2, CHR 0x80, CHR 0x8A], [CHR 0xE2, CHR 0x80, CHR 0xA8],
      [CHR 0xE2, CHR 0x80, CHR 0xA9], [CHR 0xE2, CHR 0x80, CHR 0xAF],
      [CHR 0xE2, CHR 0x81, CHR 0x9F], [CHR 0xE3, CHR 0x80, CHR 0x80]]"

text \<open>The number of bytes of the white-space rune that \<open>s\<close> starts with, 0 if none.\<close>

definition leadingSpace :: "string \<Rightarrow> nat" where
  "leadingSpace s =
     (case s of
        [] \<Rightarrow> 0
      | c # _ \<Rightarrow>
          if asciiSpace c then 1
          else (case filter (\<lambda>e. take (length e) s = e) spaceEncodings of
                  [] \<Rightarrow> 0
                | e # _ \<Rightarrow> length e))"

text \<open>The number of bytes of the white-space rune that \<open>s\<close> ends with, 0 if none.\<close>

definition trailingSpace :: "string \<Rightarrow> nat" where
  "trailingSpace s =
     (if s = [] then 0
      else if asciiSpace (last s) then 1
      else (case filter (\<lambda>e. length e \<le> length s \<and> drop (length s - length e) s = e)
                   spaceEncodings of
              [] \<Rightarrow> 0
            | e # _ \<Rightarrow> length e))"

lemma take_eq_imp_le: "take (length e) s = e \<Longrightarrow> length e \<le> length s"
proof -
  assume h: "take (length e) s = e"
  have "length (take (length e) s) = min (length e) (length s)" by simp
  with h have "length e = min (length e) (length s)" by simp
  then show ?thesis by simp
qed

lemma leadingSpace_le: "leadingSpace s \<le> length s"
proof (cases s)
  case Nil
  then show ?thesis by (simp add: leadingSpace_def)
next
  case (Cons c cs)
  show ?thesis
  proof (cases "filter (\<lambda>e. take (length e) s = e) spaceEncodings")
    case Nil
    with Cons show ?thesis by (simp add: leadingSpace_def)
  next
    case (Cons e es)
    then have "e \<in> set (filter (\<lambda>e. take (length e) s = e) spaceEncodings)" by simp
    then have "take (length e) s = e" by simp
    then have "length e \<le> length s"
      by (rule take_eq_imp_le)
    with Cons \<open>s = c # cs\<close> show ?thesis by (simp add: leadingSpace_def)
  qed
qed

lemma trailingSpace_le: "trailingSpace s \<le> length s"
proof (cases "filter (\<lambda>e. length e \<le> length s \<and> drop (length s - length e) s = e) spaceEncodings")
  case Nil
  then show ?thesis by (cases s) (simp_all add: trailingSpace_def)
next
  case (Cons e es)
  then have "e \<in> set (filter (\<lambda>e. length e \<le> length s \<and> drop (length s - length e) s = e)
                          spaceEncodings)"
    by simp
  then have "length e \<le> length s" by simp
  with Cons show ?thesis by (cases s) (simp_all add: trailingSpace_def)
qed

function TrimLeft :: "string \<Rightarrow> string" where
  "TrimLeft s = (if leadingSpace s = 0 then s else TrimLeft (drop (leadingSpace s) s))"
  by pat_completeness auto
termination
proof (relation "measure length")
  show "wf (measure length)" by simp
next
  fix s :: string
  assume "leadingSpace s \<noteq> 0"
  moreover have "leadingSpace s \<le> length s" by (rule leadingSpace_le)
  ultimately show "(drop (leadingSpace s) s, s) \<in> measure length" by simp
qed

function TrimRight :: "string \<Rightarrow> string" where
  "TrimRight s =
     (if trailingSpace s = 0 then s else TrimRight (take (length s - trailingSpace s) s))"
  by pat_completeness auto
termination
proof (relation "measure length")
  show "wf (measure length)" by simp
next
  fix s :: string
  assume "trailingSpace s \<noteq> 0"
  moreover have "trailingSpace s \<le> length s" by (rule trailingSpace_le)
  ultimately show "(take (length s - trailingSpace s) s, s) \<in> measure length" by simp
qed

declare TrimLeft.simps [simp del]
declare TrimRight.simps [simp del]

definition TrimSpace :: "string \<Rightarrow> string" where
  "TrimSpace s = TrimRight (TrimLeft s)"

text \<open>
  What is left after trimming neither starts nor ends with a white-space rune, and it is
  a piece of the string it was taken from.
\<close>

lemma leadingSpace_TrimLeft: "leadingSpace (TrimLeft s) = 0"
proof (induction s rule: TrimLeft.induct)
  case (1 s)
  show ?case
  proof (cases "leadingSpace s = 0")
    case True
    then show ?thesis by (simp add: TrimLeft.simps)
  next
    case False
    with 1 show ?thesis by (subst TrimLeft.simps) simp
  qed
qed

lemma trailingSpace_TrimRight: "trailingSpace (TrimRight s) = 0"
proof (induction s rule: TrimRight.induct)
  case (1 s)
  show ?case
  proof (cases "trailingSpace s = 0")
    case True
    then show ?thesis by (simp add: TrimRight.simps)
  next
    case False
    with 1 show ?thesis by (subst TrimRight.simps) simp
  qed
qed

lemma leadingSpace_take:
  assumes "leadingSpace s = 0"
  shows "leadingSpace (take k s) = 0"
proof (cases "take k s")
  case Nil
  show ?thesis unfolding leadingSpace_def Nil by simp
next
  case (Cons c cs)
  then obtain cs' where s: "s = c # cs'"
    by (cases s) (auto split: nat.splits simp: take_Cons)
  from assms s have nosp: "\<not> asciiSpace c"
    by (auto simp: leadingSpace_def split: if_splits)
  from assms s nosp have none: "filter (\<lambda>e. take (length e) s = e) spaceEncodings = []"
    by (auto simp: leadingSpace_def spaceEncodings_def split: list.splits if_splits)
  have "filter (\<lambda>e. take (length e) (take k s) = e) spaceEncodings = []"
  proof (rule ccontr)
    assume "filter (\<lambda>e. take (length e) (take k s) = e) spaceEncodings \<noteq> []"
    then obtain e where e: "e \<in> set spaceEncodings" "take (length e) (take k s) = e"
      by (auto simp: filter_empty_conv)
    from e(2) have "length e \<le> length (take k s)" by (rule take_eq_imp_le)
    then have "length e \<le> k" by simp
    with e(2) have "take (length e) s = e" by (simp add: min_def)
    with e(1) none show False by (auto simp: filter_empty_conv)
  qed
  with Cons nosp show ?thesis by (simp add: leadingSpace_def)
qed

lemma leadingSpace_TrimRight: "leadingSpace s = 0 \<Longrightarrow> leadingSpace (TrimRight s) = 0"
proof (induction s rule: TrimRight.induct)
  case (1 s)
  show ?case
  proof (cases "trailingSpace s = 0")
    case True
    with 1 show ?thesis by (simp add: TrimRight.simps)
  next
    case False
    with 1 leadingSpace_take [of s] show ?thesis by (subst TrimRight.simps) simp
  qed
qed

lemma TrimSpace_stripped: "leadingSpace (TrimSpace s) = 0 \<and> trailingSpace (TrimSpace s) = 0"
  by (simp add: TrimSpace_def leadingSpace_TrimLeft leadingSpace_TrimRight
      trailingSpace_TrimRight)

lemma TrimLeft_suffix: "\<exists>a. s = a @ TrimLeft s"
proof (induction s rule: TrimLeft.induct)
  case (1 s)
  show ?case
  proof (cases "leadingSpace s = 0")
    case True
    then show ?thesis by (simp add: TrimLeft.simps)
  next
    case False
    with 1 obtain a where "drop (leadingSpace s) s = a @ TrimLeft (drop (leadingSpace s) s)"
      by blast
    moreover from False have "TrimLeft s = TrimLeft (drop (leadingSpace s) s)"
      by (subst TrimLeft.simps) simp
    ultimately have "drop (leadingSpace s) s = a @ TrimLeft s" by simp
    then have "s = (take (leadingSpace s) s @ a) @ TrimLeft s"
      by (metis append_assoc append_take_drop_id)
    then show ?thesis by blast
  qed
qed

lemma TrimRight_prefix: "\<exists>b. s = TrimRight s @ b"
proof (induction s rule: TrimRight.induct)
  case (1 s)
  show ?case
  proof (cases "trailingSpace s = 0")
    case True
    then show ?thesis by (simp add: TrimRight.simps)
  next
    case False
    let ?t = "take (length s - trailingSpace s) s"
    from False 1 obtain b where "?t = TrimRight ?t @ b" by blast
    moreover from False have "TrimRight s = TrimRight ?t"
      by (subst TrimRight.simps) simp
    ultimately have "?t = TrimRight s @ b" by simp
    then have "s = TrimRight s @ (b @ drop (length s - trailingSpace s) s)"
      by (metis append_assoc append_take_drop_id)
    then show ?thesis by blast
  qed
qed

lemma TrimSpace_infix: "\<exists>a b. s = a @ TrimSpace s @ b"
proof -
  obtain a where a: "s = a @ TrimLeft s" using TrimLeft_suffix by blast
  obtain b where b: "TrimLeft s = TrimRight (TrimLeft s) @ b" using TrimRight_prefix by blast
  from a b have "s = a @ TrimSpace s @ b" by (simp add: TrimSpace_def)
  then show ?thesis by blast
qed

section \<open>I/O nodes, the host and the container state store\<close>

text \<open>
  \<open>domain.IOnode\<close>: the handlers use its name, its path, the flags of the pending open,
  and its two host operations \<open>Open\<close> and \<open>ReadLine\<close>.
\<close>

record IOnode =
  Name :: string
  Path :: string
  OpenFlags :: int

text \<open>
  The calls a handler makes to its collaborators are recorded in order, so that
  "reads the host once" and "does not consult the store" are statements about a run.
\<close>

datatype call =
    CallContainerLookupByPid pid
  | CallData inode string string
  | CallSetData inode string string string
  | CallOpen string
  | CallReadLine string

text \<open>
  Modelled from the spec: the container state store and the host file I/O behind an
  \<open>IOnode\<close> are not among the sources. Following the spec (data model and 4.3), a
  container is identified by its pid-namespace inode and holds a mapping from
  (resource path, field name) to a string; \<open>FindPidNsInode\<close> gives the inode of a pid,
  0 when it is unresolvable. The host I/O is an outside collaborator (spec 6): the world
  says what opening a path and reading its first line give at this moment.
\<close>

record world =
  FindPidNsInode :: "pid \<Rightarrow> inode"
  cntrs :: "inode \<rightharpoonup> (string \<times> string \<rightharpoonup> string)"
  hostOpen :: "string \<Rightarrow> error option"
  hostReadLine :: "string \<Rightarrow> string \<times> error option"
  calls :: "call list"

definition called :: "call \<Rightarrow> world \<Rightarrow> world" where
  "called c w = w\<lparr>calls := calls w @ [c]\<rparr>"

text \<open>
  Modelled from the spec: \<open>ContainerLookupByPid(pid) -> Container | not found\<close>, resolved
  through the pid-namespace inode. The container is returned by reference: its inode stands
  for the pointer.
\<close>

definition ContainerLookupByPid :: "pid \<Rightarrow> world \<Rightarrow> inode option \<times> world" where
  "ContainerLookupByPid p w =
     (let ino = FindPidNsInode w p
      in (if ino \<noteq> 0 \<and> cntrs w ino \<noteq> None then Some ino else None,
          called (CallContainerLookupByPid p) w))"

text \<open>Modelled from the spec: \<open>Container.Data(path, field) -> (value, found)\<close>.\<close>

definition Data :: "inode \<Rightarrow> string \<Rightarrow> string \<Rightarrow> world \<Rightarrow> string option \<times> world" where
  "Data c path name w =
     ((case cntrs w c of None \<Rightarrow> None | Some d \<Rightarrow> d (path, name)),
      called (CallData c path name) w)"

text \<open>Modelled from the spec: \<open>Container.SetData(path, field, value)\<close>.\<close>

definition SetData :: "inode \<Rightarrow> string \<Rightarrow> string \<Rightarrow> string \<Rightarrow> world \<Rightarrow> world" where
  "SetData c path name v w =
     called (CallSetData c path name v)
       (case cntrs w c of
          None \<Rightarrow> w
        | Some d \<Rightarrow> w\<lparr>cntrs := (cntrs w)(c \<mapsto> d((path, name) \<mapsto> v))\<rparr>)"

text \<open>Modelled from the spec: the host operations of an \<open>IOnode\<close> (\<open>n.Open()\<close>, \<open>n.ReadLine()\<close>).\<close>

definition IOnode_Open :: "IOnode \<Rightarrow> world \<Rightarrow> error option \<times> world" where
  "IOnode_Open n w = (hostOpen w (Path n), called (CallOpen (Path n)) w)"

definition IOnode_ReadLine :: "IOnode \<Rightarrow> world \<Rightarrow> (string \<times> error option) \<times> world" where
  "IOnode_ReadLine n w = (hostReadLine w (Path n), called (CallReadLine (Path n)) w)"

section \<open>The handlers\<close>

text \<open>
  A handler struct carries configuration only (the methods use \<open>Name\<close> and \<open>Path\<close> for
  logging); the dynamic type of the handler decides which methods run. Its \<open>Service\<close>
  field, the way to the state store, is the world that every method is given here.
\<close>

record handlerFields =
  hName :: string
  hPath :: string
  Enabled :: bool
  Cacheable :: bool

datatype handler =
    FsBinfmtRegisterHandler handlerFields
  | KernelPanicOopsHandler handlerFields
  | SysCommonHandler handlerFields

text \<open>\<open>os.FileInfo\<close>, as far as a lookup result is looked at.\<close>

record FileInfo =
  fiName :: string
  fiSize :: int
  fiIsDir :: bool

text \<open>
  A read returns the caller's buffer as it is afterwards, the byte count and the error.
  \<open>copyResultBuffer\<close>, which a read ends with, is not among the sources: the handlers take
  it as the parameter \<open>crb\<close>, called with the buffer and the bytes to hand out.
\<close>

type_synonym readResult = "string \<times> int \<times> error option"

type_synonym copyResultBuffer = "string \<Rightarrow> string \<Rightarrow> readResult"

subsection \<open>/proc/sys/fs/binfmt_misc/register\<close>

definition FsBinfmtRegisterHandler_Lookup ::
  "IOnode \<Rightarrow> pid \<Rightarrow> FileInfo option \<times> error option" where
  "FsBinfmtRegisterHandler_Lookup n p = (None, Some (IOerror ENOENT))"

definition FsBinfmtRegisterHandler_Open :: "IOnode \<Rightarrow> pid \<Rightarrow> world \<Rightarrow> error option \<times> world" where
  "FsBinfmtRegisterHandler_Open n p w = (None, w)"

definition FsBinfmtRegisterHandler_Read ::
  "IOnode \<Rightarrow> pid \<Rightarrow> string \<Rightarrow> int64 \<Rightarrow> world \<Rightarrow> readResult \<times> world" where
  "FsBinfmtRegisterHandler_Read n p buf off w = ((buf, 0, None), w)"

definition FsBinfmtRegisterHandler_Write ::
  "IOnode \<Rightarrow> pid \<Rightarrow> string \<Rightarrow> world \<Rightarrow> (int \<times> error option) \<times> world" where
  "FsBinfmtRegisterHandler_Write n p buf w = ((0, None), w)"

subsection \<open>The common handler\<close>

definition SysCommonHandler_Open :: "IOnode \<Rightarrow> pid \<Rightarrow> world \<Rightarrow> error option \<times> world" where
  "SysCommonHandler_Open n p w = (None, w)"

definition SysCommonHandler_Read ::
  "IOnode \<Rightarrow> pid \<Rightarrow> string \<Rightarrow> int64 \<Rightarrow> world \<Rightarrow> readResult \<times> world" where
  "SysCommonHandler_Read n p buf off w = ((buf, 0, None), w)"

definition SysCommonHandler_Write ::
  "IOnode \<Rightarrow> pid \<Rightarrow> string \<Rightarrow> world \<Rightarrow> (int \<times> error option) \<times> world" where
  "SysCommonHandler_Write n p buf w = ((0, None), w)"

subsection \<open>/proc/sys/kernel/panic_on_oops\<close>

text \<open>\<open>syscall.O_RDONLY\<close> and \<open>syscall.O_WRONLY\<close> on Linux.\<close>

definition O_RDONLY :: int where
  "O_RDONLY = 0"

definition O_WRONLY :: int where
  "O_WRONLY = 1"

definition KernelPanicOopsHandler_Open :: "IOnode \<Rightarrow> pid \<Rightarrow> world \<Rightarrow> error option \<times> world" where
  "KernelPanicOopsHandler_Open n p w =
     (let flags = OpenFlags n
      in if flags \<noteq> O_RDONLY \<and> flags \<noteq> O_WRONLY then (Some (IOerror EACCES), w)
         else (case IOnode_Open n w of
                 (Some err, w1) \<Rightarrow> (Some (IOerror EIO), w1)
               | (None, w1) \<Rightarrow> (None, w1)))"

definition KernelPanicOopsHandler_Read ::
  "copyResultBuffer \<Rightarrow> IOnode \<Rightarrow> pid \<Rightarrow> string \<Rightarrow> int64 \<Rightarrow> world \<Rightarrow> readResult \<times> world" where
  "KernelPanicOopsHandler_Read crb n p buf off w =
     (if 0 < sint off then ((buf, 0, Some EOF), w)
      else
        let name = Name n; path = Path n
        in (case ContainerLookupByPid p w of
              (None, w1) \<Rightarrow> ((buf, 0, Some (ErrorsNew ''Container not found'')), w1)
            | (Some cntr, w1) \<Rightarrow>
                (case Data cntr path name w1 of
                   (Some data, w2) \<Rightarrow> (crb buf (data @ newline), w2)
                 | (None, w2) \<Rightarrow>
                     (case IOnode_ReadLine n w2 of
                        ((curHostVal, err), w3) \<Rightarrow>
                          if err \<noteq> None \<and> err \<noteq> Some EOF
                          then ((buf, 0, Some (IOerror EIO)), w3)
                          else (case Atoi curHostVal of
                                  Inl e \<Rightarrow> ((buf, 0, Some (IOerror EINVAL)), w3)
                                | Inr i \<Rightarrow>
                                    (crb buf (curHostVal @ newline),
                                     SetData cntr path name curHostVal w3))))))"

definition KernelPanicOopsHandler_Write ::
  "IOnode \<Rightarrow> pid \<Rightarrow> string \<Rightarrow> world \<Rightarrow> (int \<times> error option) \<times> world" where
  "KernelPanicOopsHandler_Write n p buf w =
     (let name = Name n; path = Path n; newVal = TrimSpace buf
      in (case Atoi newVal of
            Inl e \<Rightarrow> ((0, Some (IOerror EINVAL)), w)
          | Inr newValInt \<Rightarrow>
              if newValInt < 0 \<or> newValInt > 1 then ((0, Some (IOerror EINVAL)), w)
              else (case ContainerLookupByPid p w of
                      (None, w1) \<Rightarrow> ((0, Some (ErrorsNew ''Container not found'')), w1)
                    | (Some cntr, w1) \<Rightarrow>
                        ((int (length buf), None), SetData cntr path name newVal w1))))"

subsection \<open>Dispatch on the handler's type\<close>

definition handler_Open :: "handler \<Rightarrow> IOnode \<Rightarrow> pid \<Rightarrow> world \<Rightarrow> error option \<times> world" where
  "handler_Open h n p w =
     (case h of
        FsBinfmtRegisterHandler _ \<Rightarrow> FsBinfmtRegisterHandler_Open n p w
      | KernelPanicOopsHandler _ \<Rightarrow> KernelPanicOopsHandler_Open n p w
      | SysCommonHandler _ \<Rightarrow> SysCommonHandler_Open n p w)"

definition handler_Read ::
  "copyResultBuffer \<Rightarrow> handler \<Rightarrow> IOnode \<Rightarrow> pid \<Rightarrow> string \<Rightarrow> int64 \<Rightarrow> world
     \<Rightarrow> readResult \<times> world" where
  "handler_Read crb h n p buf off w =
     (case h of
        FsBinfmtRegisterHandler _ \<Rightarrow> FsBinfmtRegisterHandler_Read n p buf off w
      | KernelPanicOopsHandler _ \<Rightarrow> KernelPanicOopsHandler_Read crb n p buf off w
      | SysCommonHandler _ \<Rightarrow> SysCommonHandler_Read n p buf off w)"

definition handler_Write ::
  "handler \<Rightarrow> IOnode \<Rightarrow> pid \<Rightarrow> string \<Rightarrow> world \<Rightarrow> (int \<times> error option) \<times> world" where
  "handler_Write h n p buf w =
     (case h of
        FsBinfmtRegisterHandler _ \<Rightarrow> FsBinfmtRegisterHandler_Write n p buf w
      | KernelPanicOopsHandler _ \<Rightarrow> KernelPanicOopsHandler_Write n p buf w
      | SysCommonHandler _ \<Rightarrow> SysCommonHandler_Write n p buf w)"

section \<open>The filesystem adapter: \<open>File\<close>\<close>

text \<open>
  A Go slice is its visible bytes together with the rest of its backing array up to the
  capacity. Reslicing \<open>s[:k]\<close> moves the boundary and panics beyond the capacity.
\<close>

type_synonym slice = "string \<times> string"

datatype goPanic = NilDereference | SliceBounds

definition reslice :: "slice \<Rightarrow> int \<Rightarrow> slice option" where
  "reslice sl k =
     (let arr = fst sl @ snd sl
      in if 0 \<le> k \<and> nat k \<le> length arr then Some (take (nat k) arr, drop (nat k) arr)
         else None)"

record Attr =
  attrInode :: "64 word"
  attrSize :: "64 word"
  attrMode :: "32 word"
  attrUid :: "32 word"
  attrGid :: "32 word"

record File =
  fname :: string
  fpath :: string
  attr :: Attr
  ionode :: "IOnode option"

text \<open>
  Requests and responses of the protocol library, with the fields the adapter touches.
  \<open>fuse.OpenDirectIO\<close> is bit 0 of the response flags and \<open>fuse.SetattrSize\<close> is bit 3
  of the request's \<open>Valid\<close> mask; \<open>Valid.Size()\<close> tests that bit.
\<close>

record OpenRequest =
  openPid :: pid
  openFlags :: "32 word"

record OpenResponse =
  openRespFlags :: "32 word"

record ReadRequest =
  readPid :: pid
  readSize :: int
  readOffset :: int64

record ReadResponse =
  respData :: slice

record WriteRequest =
  writePid :: pid
  writeData :: string

record WriteResponse =
  respSize :: int

record SetattrRequest =
  Valid :: "32 word"
  setSize :: "64 word"
  setMode :: "32 word"
  setUid :: "32 word"
  setGid :: "32 word"

record SetattrResponse =
  respAttr :: Attr

definition OpenDirectIO :: "32 word" where
  "OpenDirectIO = push_bit 0 1"

definition SetattrSize :: "32 word" where
  "SetattrSize = push_bit 3 1"

definition Valid_Size :: "32 word \<Rightarrow> bool" where
  "Valid_Size v = (v AND SetattrSize \<noteq> 0)"

text \<open>
  The handler registry (\<open>f.service.hds.LookupHandler\<close>) is not among the sources: the
  adapter's operations take it as the parameter \<open>hds\<close>.
\<close>

type_synonym handlerDB = "IOnode \<Rightarrow> handler option"

definition File_Open ::
  "handlerDB \<Rightarrow> File \<Rightarrow> OpenRequest \<Rightarrow> OpenResponse \<Rightarrow> world
     \<Rightarrow> goPanic + ((File option \<times> error option) \<times> File \<times> OpenResponse \<times> world)" where
  "File_Open hds f req resp w =
     (case ionode f of
        None \<Rightarrow> Inl NilDereference
      | Some n0 \<Rightarrow>
          let n = n0\<lparr>OpenFlags := uint (openFlags req)\<rparr>;
              f1 = f\<lparr>ionode := Some n\<rparr>
          in (case hds n of
                None \<Rightarrow> Inr ((None, Some (NoSupportedHandler (fpath f))), f1, resp, w)
              | Some h \<Rightarrow>
                  (case handler_Open h n (openPid req) w of
                     (err, w1) \<Rightarrow>
                       if err \<noteq> None \<and> err \<noteq> Some EOF then Inr ((None, err), f1, resp, w1)
                       else Inr ((Some f1, None), f1,
                                 resp\<lparr>openRespFlags := openRespFlags resp OR OpenDirectIO\<rparr>,
                                 w1))))"

definition File_Read ::
  "copyResultBuffer \<Rightarrow> handlerDB \<Rightarrow> File \<Rightarrow> ReadRequest \<Rightarrow> ReadResponse \<Rightarrow> world
     \<Rightarrow> goPanic + (error option \<times> ReadResponse \<times> world)" where
  "File_Read crb hds f req resp w =
     (case ionode f of
        None \<Rightarrow> Inr (Some (FuseErrno ENOTSUP), resp, w)
      | Some n \<Rightarrow>
          (case reslice (respData resp) (readSize req) of
             None \<Rightarrow> Inl SliceBounds
           | Some d \<Rightarrow>
               (case hds n of
                  None \<Rightarrow> Inr (Some (NoSupportedHandler (fpath f)), resp\<lparr>respData := d\<rparr>, w)
                | Some h \<Rightarrow>
                    (case handler_Read crb h n (readPid req) (fst d) (readOffset req) w of
                       ((buf, cnt, err), w1) \<Rightarrow>
                         if err \<noteq> None \<and> err \<noteq> Some EOF
                         then Inr (err, resp\<lparr>respData := (buf, snd d)\<rparr>, w1)
                         else (case reslice (buf, snd d) cnt of
                                 None \<Rightarrow> Inl SliceBounds
                               | Some d' \<Rightarrow> Inr (None, resp\<lparr>respData := d'\<rparr>, w1))))))"

definition File_Write ::
  "handlerDB \<Rightarrow> File \<Rightarrow> WriteRequest \<Rightarrow> WriteResponse \<Rightarrow> world
     \<Rightarrow> error option \<times> WriteResponse \<times> world" where
  "File_Write hds f req resp w =
     (case ionode f of
        None \<Rightarrow> (Some (FuseErrno ENOTSUP), resp, w)
      | Some n \<Rightarrow>
          (case hds n of
             None \<Rightarrow> (Some (NoSupportedHandler (fpath f)), resp, w)
           | Some h \<Rightarrow>
               (case handler_Write h n (writePid req) (writeData req) w of
                  ((cnt, err), w1) \<Rightarrow>
                    if err \<noteq> None \<and> err \<noteq> Some EOF then (err, resp, w1)
                    else (None, resp\<lparr>respSize := cnt\<rparr>, w1))))"

definition File_Setattr ::
  "File \<Rightarrow> SetattrRequest \<Rightarrow> SetattrResponse \<Rightarrow> error option \<times> File \<times> SetattrResponse" where
  "File_Setattr f req resp =
     (if Valid_Size (Valid req) then (None, f, resp) else (Some (FuseErrno EPERM), f, resp))"

section \<open>Example values\<close>

text \<open>
  Two registered containers, seen through the processes \<open>pidA\<close> and \<open>pidB\<close>, and a
  process \<open>pidX\<close> of no registered container. The host file reads \<open>0\<close>. Nothing is
  cached yet.
\<close>

definition pidA :: pid where
  "pidA = 1001"

definition pidB :: pid where
  "pidB = 2002"

definition pidX :: pid where
  "pidX = 3003"

definition nsA :: inode where
  "nsA = 4026532281"

definition nsB :: inode where
  "nsB = 4026532282"

definition oopsNode :: IOnode where
  "oopsNode =
     \<lparr>Name = ''panic_on_oops'', Path = ''/proc/sys/kernel/panic_on_oops'', OpenFlags = 0\<rparr>"

definition world0 :: world where
  "world0 =
     \<lparr>FindPidNsInode = (\<lambda>p. if p = pidA then nsA else if p = pidB then nsB else 0),
      cntrs = [nsA \<mapsto> Map.empty, nsB \<mapsto> Map.empty],
      hostOpen = (\<lambda>path. None),
      hostReadLine = (\<lambda>path. (''0'', None)),
      calls = []\<rparr>"

text \<open>
  An instance of the \<open>copyResultBuffer\<close> parameter for the examples: as many bytes of
  the result as fit are copied to the front of the buffer.
\<close>

definition copyFit :: copyResultBuffer where
  "copyFit b result =
     (let l = min (length b) (length result)
      in (take l result @ drop l b, int l, None))"

definition buf4 :: string where
  "buf4 = [CHR 0x00, CHR 0x00, CHR 0x00, CHR 0x00]"

definition oopsHandler :: handler where
  "oopsHandler =
     KernelPanicOopsHandler
       \<lparr>hName = ''kernelPanicOops'', hPath = ''/proc/sys/kernel/panic_on_oops'',
        Enabled = True, Cacheable = True\<rparr>"

definition hds0 :: handlerDB where
  "hds0 n = (if Path n = ''/proc/sys/kernel/panic_on_oops'' then Some oopsHandler else None)"

definition oopsFile :: File where
  "oopsFile =
     \<lparr>fname = ''panic_on_oops'', fpath = ''/proc/sys/kernel/panic_on_oops'',
      attr = \<lparr>attrInode = 77, attrSize = 0, attrMode = 420, attrUid = 0, attrGid = 0\<rparr>,
      ionode = Some oopsNode\<rparr>"

text \<open>
  More worlds: one where both containers hold the host's \<open>0\<close> from an earlier read,
  one where the first container holds \<open>1\<close> instead, one whose host file holds no number,
  one whose host file cannot be opened.
\<close>

definition worldSeeded :: world where
  "worldSeeded =
     world0\<lparr>cntrs := [nsA \<mapsto> [(Path oopsNode, Name oopsNode) \<mapsto> ''0''],
                       nsB \<mapsto> [(Path oopsNode, Name oopsNode) \<mapsto> ''0'']]\<rparr>"

definition worldCached :: world where
  "worldCached =
     world0\<lparr>cntrs := [nsA \<mapsto> [(Path oopsNode, Name oopsNode) \<mapsto> ''1''],
                       nsB \<mapsto> [(Path oopsNode, Name oopsNode) \<mapsto> ''0'']]\<rparr>"

definition worldBad :: world where
  "worldBad = world0\<lparr>hostReadLine := (\<lambda>path. (''on'', None))\<rparr>"

definition worldNoOpen :: world where
  "worldNoOpen = world0\<lparr>hostOpen := (\<lambda>path. Some (HostError ''permission denied''))\<rparr>"

text \<open>
  A world whose host file cannot be read, and one where a second process, \<open>pidA2\<close>,
  lives in the first container.
\<close>

definition worldHostFail :: world where
  "worldHostFail =
     world0\<lparr>hostReadLine := (\<lambda>path. ([], Some (HostError ''input/output error'')))\<rparr>"

definition pidA2 :: pid where
  "pidA2 = 1002"

definition worldShared :: world where
  "worldShared =
     world0\<lparr>FindPidNsInode :=
              (\<lambda>p. if p = pidA \<or> p = pidA2 then nsA else if p = pidB then nsB else 0)\<rparr>"

lemmas ex_defs = pidA_def pidB_def pidX_def nsA_def nsB_def oopsNode_def world0_def
  copyFit_def buf4_def oopsHandler_def hds0_def oopsFile_def worldCached_def worldBad_def
  worldNoOpen_def worldSeeded_def worldHostFail_def pidA2_def worldShared_def

lemmas trim_ev = TrimSpace_def TrimLeft.simps TrimRight.simps leadingSpace_def
  trailingSpace_def asciiSpace_def spaceEncodings_def
lemmas atoi_ev = Atoi_def isDigit_def digitVal_def maxUint64_def

lemma TrimSpace_ex1: "TrimSpace [CHR 0x20, CHR ''1'', CHR 0x0A] = ''1''"
  by (simp add: trim_ev)
lemma TrimSpace_ex2: "TrimSpace [CHR ''1'', CHR 0x0A] = ''1''"
  by (simp add: trim_ev)
lemma TrimSpace_ex3: "TrimSpace ''1'' = ''1''"
  by (simp add: trim_ev)
lemma TrimSpace_ex4: "TrimSpace ''5'' = ''5''"
  by (simp add: trim_ev)
lemma TrimSpace_ex5: "TrimSpace ''on'' = ''on''"
  by (simp add: trim_ev)
lemma Atoi_ex1: "Atoi ''1'' = Inr 1"  by (simp add: atoi_ev)
lemma Atoi_ex0: "Atoi ''0'' = Inr 0"  by (simp add: atoi_ev)
lemma Atoi_ex5: "Atoi ''5'' = Inr 5"  by (simp add: atoi_ev)
lemma Atoi_exon: "Atoi ''on'' = Inl ErrSyntax"  by (simp add: atoi_ev)


section \<open>One run of each handler path\<close>

text \<open>
  The lemmas of this section give, for each path through \<open>Read\<close> and \<open>Write\<close> of the
  panic_on_oops handler, the result and the world afterwards: the store and the list of
  collaborator calls, written out.
\<close>

lemma lookup_registered:
  "fst (ContainerLookupByPid p w) = Some c \<longleftrightarrow>
     FindPidNsInode w p = c \<and> c \<noteq> 0 \<and> cntrs w c \<noteq> None"
  by (auto simp: ContainerLookupByPid_def Let_def)

lemma Write_valid:
  assumes "fst (ContainerLookupByPid p w) = Some c" and "cntrs w c = Some d"
    and "Atoi (TrimSpace buf) = Inr i" and "0 \<le> i" and "i \<le> 1"
  shows "KernelPanicOopsHandler_Write n p buf w =
           ((int (length buf), None),
            w\<lparr>cntrs := (cntrs w)(c \<mapsto> d((Path n, Name n) \<mapsto> TrimSpace buf)),
              calls := calls w @ [CallContainerLookupByPid p,
                                  CallSetData c (Path n) (Name n) (TrimSpace buf)]\<rparr>)"
  using assms
  by (auto simp: KernelPanicOopsHandler_Write_def ContainerLookupByPid_def SetData_def
      called_def Let_def)

lemma Write_invalid:
  assumes "Atoi (TrimSpace buf) \<noteq> Inr 0" and "Atoi (TrimSpace buf) \<noteq> Inr 1"
  shows "KernelPanicOopsHandler_Write n p buf w = ((0, Some (IOerror EINVAL)), w)"
proof (cases "Atoi (TrimSpace buf)")
  case (Inl e)
  then show ?thesis by (simp add: KernelPanicOopsHandler_Write_def)
next
  case (Inr i)
  with assms have "i < 0 \<or> 1 < i" by auto
  with Inr show ?thesis by (auto simp: KernelPanicOopsHandler_Write_def)
qed

lemma Read_hit:
  assumes "\<not> 0 < sint off"
    and "fst (ContainerLookupByPid p w) = Some c" and "cntrs w c = Some d"
    and "d (Path n, Name n) = Some v"
  shows "KernelPanicOopsHandler_Read crb n p buf off w =
           (crb buf (v @ newline),
            w\<lparr>calls := calls w @ [CallContainerLookupByPid p, CallData c (Path n) (Name n)]\<rparr>)"
  using assms
  by (auto simp: KernelPanicOopsHandler_Read_def ContainerLookupByPid_def Data_def
      called_def Let_def)

lemma Read_miss_seed:
  assumes "\<not> 0 < sint off"
    and "fst (ContainerLookupByPid p w) = Some c" and "cntrs w c = Some d"
    and "d (Path n, Name n) = None"
    and "hostReadLine w (Path n) = (line, err)" and "err = None \<or> err = Some EOF"
    and "Atoi line = Inr i"
  shows "KernelPanicOopsHandler_Read crb n p buf off w =
           (crb buf (line @ newline),
            w\<lparr>cntrs := (cntrs w)(c \<mapsto> d((Path n, Name n) \<mapsto> line)),
              calls := calls w @ [CallContainerLookupByPid p, CallData c (Path n) (Name n),
                                  CallReadLine (Path n),
                                  CallSetData c (Path n) (Name n) line]\<rparr>)"
  using assms
  by (auto simp: KernelPanicOopsHandler_Read_def ContainerLookupByPid_def Data_def
      IOnode_ReadLine_def SetData_def called_def Let_def)

lemma Read_miss_malformed:
  assumes "\<not> 0 < sint off"
    and "fst (ContainerLookupByPid p w) = Some c" and "cntrs w c = Some d"
    and "d (Path n, Name n) = None"
    and "hostReadLine w (Path n) = (line, err)" and "err = None \<or> err = Some EOF"
    and "Atoi line = Inl e"
  shows "KernelPanicOopsHandler_Read crb n p buf off w =
           ((buf, 0, Some (IOerror EINVAL)),
            w\<lparr>calls := calls w @ [CallContainerLookupByPid p, CallData c (Path n) (Name n),
                                  CallReadLine (Path n)]\<rparr>)"
  using assms
  by (auto simp: KernelPanicOopsHandler_Read_def ContainerLookupByPid_def Data_def
      IOnode_ReadLine_def SetData_def called_def Let_def)

lemma Read_miss_hostfail:
  assumes "\<not> 0 < sint off"
    and "fst (ContainerLookupByPid p w) = Some c" and "cntrs w c = Some d"
    and "d (Path n, Name n) = None"
    and "hostReadLine w (Path n) = (line, err)" and "err \<noteq> None" and "err \<noteq> Some EOF"
  shows "KernelPanicOopsHandler_Read crb n p buf off w =
           ((buf, 0, Some (IOerror EIO)),
            w\<lparr>calls := calls w @ [CallContainerLookupByPid p, CallData c (Path n) (Name n),
                                  CallReadLine (Path n)]\<rparr>)"
  using assms
  by (auto simp: KernelPanicOopsHandler_Read_def ContainerLookupByPid_def Data_def
      IOnode_ReadLine_def SetData_def called_def Let_def)

lemma Read_unregistered:
  assumes "\<not> 0 < sint off" and "fst (ContainerLookupByPid p w) = None"
  shows "KernelPanicOopsHandler_Read crb n p buf off w =
           ((buf, 0, Some (ErrorsNew ''Container not found'')),
            w\<lparr>calls := calls w @ [CallContainerLookupByPid p]\<rparr>)"
  using assms
  by (auto simp: KernelPanicOopsHandler_Read_def ContainerLookupByPid_def
      called_def Let_def split: if_splits)

lemma Write_unregistered:
  assumes "fst (ContainerLookupByPid p w) = None"
    and "Atoi (TrimSpace buf) = Inr i" and "0 \<le> i" and "i \<le> 1"
  shows "KernelPanicOopsHandler_Write n p buf w =
           ((0, Some (ErrorsNew ''Container not found'')),
            w\<lparr>calls := calls w @ [CallContainerLookupByPid p]\<rparr>)"
  using assms
  by (auto simp: KernelPanicOopsHandler_Write_def ContainerLookupByPid_def
      called_def Let_def split: if_splits)

lemma Read_EOF:
  "0 < sint off \<Longrightarrow> KernelPanicOopsHandler_Read crb n p buf off w = ((buf, 0, Some EOF), w)"
  by (simp add: KernelPanicOopsHandler_Read_def)

lemma Read_same_view:
  assumes "FindPidNsInode w' q = FindPidNsInode w q"
    and "cntrs w' (FindPidNsInode w q) = cntrs w (FindPidNsInode w q)"
    and "hostReadLine w' (Path m) = hostReadLine w (Path m)"
  shows "fst (KernelPanicOopsHandler_Read crb m q buf off w')
       = fst (KernelPanicOopsHandler_Read crb m q buf off w)"
  using assms
  by (auto simp: KernelPanicOopsHandler_Read_def ContainerLookupByPid_def Data_def
      IOnode_ReadLine_def called_def Let_def split: option.splits sum.splits prod.splits)

lemma Write_success_valid:
  assumes "KernelPanicOopsHandler_Write n p buf w = ((k, None), w')"
  shows "Atoi (TrimSpace buf) = Inr 0 \<or> Atoi (TrimSpace buf) = Inr 1"
proof (cases "Atoi (TrimSpace buf)")
  case (Inl e)
  with assms show ?thesis by (simp add: KernelPanicOopsHandler_Write_def)
next
  case (Inr i)
  with assms have "\<not> (i < 0 \<or> 1 < i)"
    by (auto simp: KernelPanicOopsHandler_Write_def split: if_splits)
  then have "i = 0 \<or> i = 1" by arith
  with Inr show ?thesis by auto
qed

lemma Valid_Size_bit: "Valid_Size v = bit v 3"
  by (simp add: Valid_Size_def SetattrSize_def bit_iff_and_push_bit_not_eq_0)

section \<open>The claims\<close>

text \<open>
  C1, as amended. A \<open>Read\<close> at offset 0 for a pid of a registered container: a cached
  value \<open>v\<close> is returned followed by a newline, with no host read; with no cached value
  the host's first line is read once. If that read fails with an error other than
  end-of-file, the read fails with \<open>EIO\<close> and nothing is stored. Otherwise, if the line
  parses as an integer it is stored in the container and returned followed by a newline,
  and if it does not parse the read fails with \<open>EINVAL\<close> and nothing is stored. The bytes
  go back through \<open>copyResultBuffer\<close>; the calls made are listed in the world afterwards.
\<close>

theorem Read_resolves_value:
  assumes "sint off \<le> 0"
    and "fst (ContainerLookupByPid p w) = Some c" and "cntrs w c = Some d"
  shows "(d (Path n, Name n) = Some v \<longrightarrow>
            KernelPanicOopsHandler_Read crb n p buf off w =
              (crb buf (v @ newline),
               w\<lparr>calls := calls w @ [CallContainerLookupByPid p,
                                     CallData c (Path n) (Name n)]\<rparr>))
       \<and> (d (Path n, Name n) = None \<and> hostReadLine w (Path n) = (line, err)
            \<and> err \<noteq> None \<and> err \<noteq> Some EOF \<longrightarrow>
            KernelPanicOopsHandler_Read crb n p buf off w =
              ((buf, 0, Some (IOerror EIO)),
               w\<lparr>calls := calls w @ [CallContainerLookupByPid p,
                                     CallData c (Path n) (Name n),
                                     CallReadLine (Path n)]\<rparr>))
       \<and> (d (Path n, Name n) = None \<and> hostReadLine w (Path n) = (line, err)
            \<and> (err = None \<or> err = Some EOF) \<and> Atoi line = Inr i \<longrightarrow>
            KernelPanicOopsHandler_Read crb n p buf off w =
              (crb buf (line @ newline),
               w\<lparr>cntrs := (cntrs w)(c \<mapsto> d((Path n, Name n) \<mapsto> line)),
                 calls := calls w @ [CallContainerLookupByPid p,
                                     CallData c (Path n) (Name n),
                                     CallReadLine (Path n),
                                     CallSetData c (Path n) (Name n) line]\<rparr>))
       \<and> (d (Path n, Name n) = None \<and> hostReadLine w (Path n) = (line, err)
            \<and> (err = None \<or> err = Some EOF) \<and> Atoi line = Inl e \<longrightarrow>
            KernelPanicOopsHandler_Read crb n p buf off w =
              ((buf, 0, Some (IOerror EINVAL)),
               w\<lparr>calls := calls w @ [CallContainerLookupByPid p,
                                     CallData c (Path n) (Name n),
                                     CallReadLine (Path n)]\<rparr>))"
proof -
  from assms(1) have off: "\<not> 0 < sint off" by simp
  note hit = Read_hit [OF off assms(2,3), of n v crb buf]
    and fail = Read_miss_hostfail [OF off assms(2,3), of n line err crb buf]
    and seed = Read_miss_seed [OF off assms(2,3), of n line err i crb buf]
    and bad = Read_miss_malformed [OF off assms(2,3), of n line err e crb buf]
  show ?thesis
  proof (intro conjI impI)
    assume "d (Path n, Name n) = Some v"
    then show "KernelPanicOopsHandler_Read crb n p buf off w =
              (crb buf (v @ newline),
               w\<lparr>calls := calls w @ [CallContainerLookupByPid p,
                                     CallData c (Path n) (Name n)]\<rparr>)"
      by (rule hit)
  next
    assume "d (Path n, Name n) = None \<and> hostReadLine w (Path n) = (line, err)
            \<and> err \<noteq> None \<and> err \<noteq> Some EOF"
    then show "KernelPanicOopsHandler_Read crb n p buf off w =
              ((buf, 0, Some (IOerror EIO)),
               w\<lparr>calls := calls w @ [CallContainerLookupByPid p,
                                     CallData c (Path n) (Name n),
                                     CallReadLine (Path n)]\<rparr>)"
      using fail by blast
  next
    assume "d (Path n, Name n) = None \<and> hostReadLine w (Path n) = (line, err)
            \<and> (err = None \<or> err = Some EOF) \<and> Atoi line = Inr i"
    then show "KernelPanicOopsHandler_Read crb n p buf off w =
              (crb buf (line @ newline),
               w\<lparr>cntrs := (cntrs w)(c \<mapsto> d((Path n, Name n) \<mapsto> line)),
                 calls := calls w @ [CallContainerLookupByPid p,
                                     CallData c (Path n) (Name n),
                                     CallReadLine (Path n),
                                     CallSetData c (Path n) (Name n) line]\<rparr>)"
      using seed by blast
  next
    assume "d (Path n, Name n) = None \<and> hostReadLine w (Path n) = (line, err)
            \<and> (err = None \<or> err = Some EOF) \<and> Atoi line = Inl e"
    then show "KernelPanicOopsHandler_Read crb n p buf off w =
              ((buf, 0, Some (IOerror EINVAL)),
               w\<lparr>calls := calls w @ [CallContainerLookupByPid p,
                                     CallData c (Path n) (Name n),
                                     CallReadLine (Path n)]\<rparr>)"
      using bad by blast
  qed
qed

theorem Read_resolves_value_witness:
  "KernelPanicOopsHandler_Read copyFit oopsNode pidA buf4 0 worldCached =
     (([CHR ''1'', CHR 0x0A, CHR 0x00, CHR 0x00], 2, None),
      worldCached\<lparr>calls := [CallContainerLookupByPid pidA,
                              CallData nsA (Path oopsNode) (Name oopsNode)]\<rparr>)
   \<and> KernelPanicOopsHandler_Read copyFit oopsNode pidA buf4 0 worldHostFail =
     ((buf4, 0, Some (IOerror EIO)),
      worldHostFail\<lparr>calls := [CallContainerLookupByPid pidA,
                                CallData nsA (Path oopsNode) (Name oopsNode),
                                CallReadLine (Path oopsNode)]\<rparr>)
   \<and> KernelPanicOopsHandler_Read copyFit oopsNode pidA buf4 0 world0 =
     (([CHR ''0'', CHR 0x0A, CHR 0x00, CHR 0x00], 2, None),
      world0\<lparr>cntrs := (cntrs world0)(nsA \<mapsto> [(Path oopsNode, Name oopsNode) \<mapsto> ''0'']),
             calls := [CallContainerLookupByPid pidA,
                       CallData nsA (Path oopsNode) (Name oopsNode),
                       CallReadLine (Path oopsNode),
                       CallSetData nsA (Path oopsNode) (Name oopsNode) ''0'']\<rparr>)
   \<and> KernelPanicOopsHandler_Read copyFit oopsNode pidA buf4 0 worldBad =
     ((buf4, 0, Some (IOerror EINVAL)),
      worldBad\<lparr>calls := [CallContainerLookupByPid pidA,
                           CallData nsA (Path oopsNode) (Name oopsNode),
                           CallReadLine (Path oopsNode)]\<rparr>)"
proof -
  have off: "sint (0 :: int64) \<le> 0" by simp
  have regC: "fst (ContainerLookupByPid pidA worldCached) = Some nsA"
    and reg0: "fst (ContainerLookupByPid pidA world0) = Some nsA"
    and regB: "fst (ContainerLookupByPid pidA worldBad) = Some nsA"
    and regF: "fst (ContainerLookupByPid pidA worldHostFail) = Some nsA"
    by (simp_all add: lookup_registered ex_defs)
  have dC: "cntrs worldCached nsA = Some [(Path oopsNode, Name oopsNode) \<mapsto> ''1'']"
    and d0: "cntrs world0 nsA = Some Map.empty"
    and dB: "cntrs worldBad nsA = Some Map.empty"
    and dF: "cntrs worldHostFail nsA = Some Map.empty"
    by (simp_all add: ex_defs)
  have hit: "KernelPanicOopsHandler_Read copyFit oopsNode pidA buf4 0 worldCached =
      (copyFit buf4 (''1'' @ newline),
       worldCached\<lparr>calls := calls worldCached @ [CallContainerLookupByPid pidA,
                              CallData nsA (Path oopsNode) (Name oopsNode)]\<rparr>)"
    using Read_resolves_value [OF off regC dC, where n = oopsNode and v = "''1''"] by simp
  have fail: "KernelPanicOopsHandler_Read copyFit oopsNode pidA buf4 0 worldHostFail =
      ((buf4, 0, Some (IOerror EIO)),
       worldHostFail\<lparr>calls := calls worldHostFail @ [CallContainerLookupByPid pidA,
                                CallData nsA (Path oopsNode) (Name oopsNode),
                                CallReadLine (Path oopsNode)]\<rparr>)"
    using Read_resolves_value [OF off regF dF, where n = oopsNode and line = "[]"
        and err = "Some (HostError ''input/output error'')"]
    by (simp add: worldHostFail_def world0_def)
  have seed: "KernelPanicOopsHandler_Read copyFit oopsNode pidA buf4 0 world0 =
      (copyFit buf4 (''0'' @ newline),
       world0\<lparr>cntrs := (cntrs world0)(nsA \<mapsto> [(Path oopsNode, Name oopsNode) \<mapsto> ''0'']),
              calls := calls world0 @ [CallContainerLookupByPid pidA,
                       CallData nsA (Path oopsNode) (Name oopsNode),
                       CallReadLine (Path oopsNode),
                       CallSetData nsA (Path oopsNode) (Name oopsNode) ''0'']\<rparr>)"
    using Read_resolves_value [OF off reg0 d0, where n = oopsNode and line = "''0''"
        and err = None and i = 0]
    by (simp add: Atoi_ex0) (simp add: world0_def)
  have bad: "KernelPanicOopsHandler_Read copyFit oopsNode pidA buf4 0 worldBad =
      ((buf4, 0, Some (IOerror EINVAL)),
       worldBad\<lparr>calls := calls worldBad @ [CallContainerLookupByPid pidA,
                           CallData nsA (Path oopsNode) (Name oopsNode),
                           CallReadLine (Path oopsNode)]\<rparr>)"
    using Read_resolves_value [OF off regB dB, where n = oopsNode and line = "''on''"
        and err = None and e = ErrSyntax]
    by (simp add: Atoi_exon) (simp add: worldBad_def world0_def)
  have e: "calls worldCached = []" "calls world0 = []" "calls worldBad = []"
    "calls worldHostFail = []"
    by (simp_all add: ex_defs)
  show ?thesis using hit fail seed bad by (simp add: e copyFit_def buf4_def newline_def)
qed

text \<open>
  C1 as it was stated gives two outcomes for a read that finds no cached value: the
  line is stored and returned, or the read fails with \<open>EINVAL\<close>. When the host file
  cannot be read, the line handed back is empty and does not parse, yet the error is
  \<open>EIO\<close>, not \<open>EINVAL\<close>.
\<close>

theorem Read_resolves_value_counterexample:
  "\<not> (fst (ContainerLookupByPid pidA worldHostFail) = Some nsA
        \<and> fst (Data nsA (Path oopsNode) (Name oopsNode) worldHostFail) = None
        \<and> Atoi (fst (hostReadLine worldHostFail (Path oopsNode))) = Inl ErrSyntax
      \<longrightarrow> snd (snd (fst (KernelPanicOopsHandler_Read copyFit oopsNode pidA buf4 0
                             worldHostFail)))
            = Some (IOerror EINVAL))"
proof -
  have reg: "fst (ContainerLookupByPid pidA worldHostFail) = Some nsA"
    by (simp add: lookup_registered ex_defs)
  have d: "cntrs worldHostFail nsA = Some Map.empty" by (simp add: ex_defs)
  have miss: "fst (Data nsA (Path oopsNode) (Name oopsNode) worldHostFail) = None"
    by (simp add: Data_def d)
  have line: "hostReadLine worldHostFail (Path oopsNode)
                = ([], Some (HostError ''input/output error''))"
    by (simp add: worldHostFail_def world0_def)
  have atoi: "Atoi (fst (hostReadLine worldHostFail (Path oopsNode))) = Inl ErrSyntax"
    by (simp add: line Atoi_def)
  have "KernelPanicOopsHandler_Read copyFit oopsNode pidA buf4 0 worldHostFail =
      ((buf4, 0, Some (IOerror EIO)),
       worldHostFail\<lparr>calls := calls worldHostFail @ [CallContainerLookupByPid pidA,
                                CallData nsA (Path oopsNode) (Name oopsNode),
                                CallReadLine (Path oopsNode)]\<rparr>)"
    by (rule Read_miss_hostfail [OF _ reg d _ line]) simp_all
  with reg miss atoi show ?thesis by simp
qed

text \<open>
  C2, as amended. For a registered container, a \<open>Write\<close> of a value \<open>V\<close> whose trimmed
  content parses as 0 or 1 succeeds and reports the length of the written buffer, and a
  \<open>Read\<close> of the same resource at offset 0 right after it, by the writing process or by
  any other process of the same container, returns the trimmed \<open>V\<close> followed by a
  newline. It is the trimmed string that comes back, not \<open>V\<close> as it was written: after
  writing the two bytes \<open>1\<close>, newline, a read gives those two bytes and no second newline.
\<close>

theorem Write_then_Read:
  assumes "fst (ContainerLookupByPid p w) = Some c"
    and "fst (ContainerLookupByPid q w) = Some c"
    and "Atoi (TrimSpace V) = Inr 0 \<or> Atoi (TrimSpace V) = Inr 1"
    and "sint off \<le> 0"
    and "Path m = Path n" and "Name m = Name n"
  shows "fst (KernelPanicOopsHandler_Write n p V w) = (int (length V), None)
       \<and> fst (KernelPanicOopsHandler_Read crb m q buf off
                 (snd (KernelPanicOopsHandler_Write n p V w)))
           = crb buf (TrimSpace V @ newline)"
proof -
  from assms(1) obtain d where d: "cntrs w c = Some d"
    by (auto simp: lookup_registered)
  from assms(3) obtain i where i: "Atoi (TrimSpace V) = Inr i" "0 \<le> i" "i \<le> 1" by auto
  let ?w1 = "w\<lparr>cntrs := (cntrs w)(c \<mapsto> d((Path n, Name n) \<mapsto> TrimSpace V)),
               calls := calls w @ [CallContainerLookupByPid p,
                                   CallSetData c (Path n) (Name n) (TrimSpace V)]\<rparr>"
  have wr: "KernelPanicOopsHandler_Write n p V w = ((int (length V), None), ?w1)"
    by (rule Write_valid [OF assms(1) d i])
  from assms(4) have off: "\<not> 0 < sint off" by simp
  from assms(2) have reg1: "fst (ContainerLookupByPid q ?w1) = Some c"
    by (simp add: lookup_registered)
  have c1: "cntrs ?w1 c = Some (d((Path n, Name n) \<mapsto> TrimSpace V))" by simp
  have held: "(d((Path n, Name n) \<mapsto> TrimSpace V)) (Path m, Name m) = Some (TrimSpace V)"
    using assms(5,6) by simp
  have "KernelPanicOopsHandler_Read crb m q buf off ?w1
          = (crb buf (TrimSpace V @ newline),
             ?w1\<lparr>calls := calls ?w1 @ [CallContainerLookupByPid q,
                                        CallData c (Path m) (Name m)]\<rparr>)"
    by (rule Read_hit [OF off reg1 c1 held])
  with wr show ?thesis by simp
qed

theorem Write_then_Read_witness:
  "fst (KernelPanicOopsHandler_Write oopsNode pidA [CHR 0x20, CHR ''1'', CHR 0x0A] worldShared)
     = (3, None)
   \<and> fst (KernelPanicOopsHandler_Read copyFit (oopsNode\<lparr>OpenFlags := 1\<rparr>) pidA2 buf4 0
            (snd (KernelPanicOopsHandler_Write oopsNode pidA [CHR 0x20, CHR ''1'', CHR 0x0A]
                    worldShared)))
       = ([CHR ''1'', CHR 0x0A, CHR 0x00, CHR 0x00], 2, None)
   \<and> fst (KernelPanicOopsHandler_Read copyFit oopsNode pidA buf4 0
            (snd (KernelPanicOopsHandler_Write oopsNode pidA [CHR 0x20, CHR ''1'', CHR 0x0A]
                    worldShared)))
       = ([CHR ''1'', CHR 0x0A, CHR 0x00, CHR 0x00], 2, None)"
proof -
  have regA: "fst (ContainerLookupByPid pidA worldShared) = Some nsA"
    and regA2: "fst (ContainerLookupByPid pidA2 worldShared) = Some nsA"
    by (simp_all add: lookup_registered ex_defs)
  have valid: "Atoi (TrimSpace [CHR 0x20, CHR ''1'', CHR 0x0A]) = Inr 0
             \<or> Atoi (TrimSpace [CHR 0x20, CHR ''1'', CHR 0x0A]) = Inr 1"
    by (simp add: TrimSpace_ex1 Atoi_ex1)
  have off: "sint (0 :: int64) \<le> 0" by simp
  have same: "Path (oopsNode\<lparr>OpenFlags := 1\<rparr>) = Path oopsNode"
    "Name (oopsNode\<lparr>OpenFlags := 1\<rparr>) = Name oopsNode"
    by simp_all
  show ?thesis
    using Write_then_Read [OF regA regA2 valid off same, of copyFit buf4]
      Write_then_Read [OF regA regA valid off refl refl, of oopsNode copyFit buf4]
    by (simp add: TrimSpace_ex1 copyFit_def buf4_def newline_def)
qed

text \<open>
  C2 as it was stated, with the written string itself coming back, fails for the two
  bytes \<open>1\<close>, newline.
\<close>

theorem Write_then_Read_counterexample:
  "\<not> (fst (ContainerLookupByPid pidA world0) = Some nsA
        \<and> (Atoi (TrimSpace [CHR ''1'', CHR 0x0A]) = Inr 0
            \<or> Atoi (TrimSpace [CHR ''1'', CHR 0x0A]) = Inr 1)
      \<longrightarrow> fst (KernelPanicOopsHandler_Write oopsNode pidA [CHR ''1'', CHR 0x0A] world0)
            = (int (length [CHR ''1'', CHR 0x0A]), None)
          \<and> fst (KernelPanicOopsHandler_Read copyFit oopsNode pidA buf4 0
                   (snd (KernelPanicOopsHandler_Write oopsNode pidA [CHR ''1'', CHR 0x0A]
                           world0)))
            = copyFit buf4 ([CHR ''1'', CHR 0x0A] @ newline))"
proof -
  have reg: "fst (ContainerLookupByPid pidA world0) = Some nsA"
    by (simp add: lookup_registered ex_defs)
  have d: "cntrs world0 nsA = Some Map.empty" by (simp add: ex_defs)
  have atoi: "Atoi (TrimSpace [CHR ''1'', CHR 0x0A]) = Inr 1"
    by (simp add: TrimSpace_ex2 Atoi_ex1)
  let ?w1 = "world0\<lparr>cntrs := (cntrs world0)(nsA \<mapsto> [(Path oopsNode, Name oopsNode) \<mapsto> ''1'']),
                    calls := calls world0 @ [CallContainerLookupByPid pidA,
                      CallSetData nsA (Path oopsNode) (Name oopsNode) ''1'']\<rparr>"
  have wr: "KernelPanicOopsHandler_Write oopsNode pidA [CHR ''1'', CHR 0x0A] world0
              = ((2, None), ?w1)"
    using Write_valid [OF reg d atoi, of oopsNode] by (simp add: TrimSpace_ex2)
  have reg1: "fst (ContainerLookupByPid pidA ?w1) = Some nsA"
    using reg by (simp add: lookup_registered)
  have rd: "fst (KernelPanicOopsHandler_Read copyFit oopsNode pidA buf4 0 ?w1)
              = copyFit buf4 (''1'' @ newline)"
    using Read_hit [OF _ reg1, of 0 _ oopsNode "''1''" copyFit buf4] by simp
  have differ: "copyFit buf4 (''1'' @ newline) \<noteq> copyFit buf4 ([CHR ''1'', CHR 0x0A] @ newline)"
    by (simp add: copyFit_def buf4_def newline_def)
  show ?thesis using reg atoi wr rd differ by simp
qed

text \<open>
  C3. A successful \<open>Write\<close> from container \<open>a\<close> leaves the host as it was and makes no
  host call: it looks the container up and stores one value. Every cached value other than
  \<open>a\<close>'s entry for this (path, name) is unchanged, and a \<open>Read\<close> by a process of any other
  container gives the same result after the write as before it.
\<close>

theorem Write_frame:
  assumes "KernelPanicOopsHandler_Write n p buf w = ((k, None), w')"
    and "fst (ContainerLookupByPid p w) = Some a"
  shows "FindPidNsInode w' = FindPidNsInode w \<and> hostOpen w' = hostOpen w
       \<and> hostReadLine w' = hostReadLine w
       \<and> calls w' = calls w @ [CallContainerLookupByPid p,
                               CallSetData a (Path n) (Name n) (TrimSpace buf)]
       \<and> (\<forall>c path name. (c, path, name) \<noteq> (a, Path n, Name n) \<longrightarrow>
             fst (Data c path name w') = fst (Data c path name w))
       \<and> (\<forall>q m rbuf off. fst (ContainerLookupByPid q w) \<noteq> Some a \<longrightarrow>
             fst (KernelPanicOopsHandler_Read crb m q rbuf off w')
               = fst (KernelPanicOopsHandler_Read crb m q rbuf off w))"
proof -
  from assms(2) obtain d where d: "cntrs w a = Some d"
    by (auto simp: lookup_registered)
  from Write_success_valid [OF assms(1)]
  obtain i where i: "Atoi (TrimSpace buf) = Inr i" "0 \<le> i" "i \<le> 1" by auto
  have w': "w' = w\<lparr>cntrs := (cntrs w)(a \<mapsto> d((Path n, Name n) \<mapsto> TrimSpace buf)),
                  calls := calls w @ [CallContainerLookupByPid p,
                                      CallSetData a (Path n) (Name n) (TrimSpace buf)]\<rparr>"
    using Write_valid [OF assms(2) d i] assms(1) by simp
  have others: "fst (KernelPanicOopsHandler_Read crb m q rbuf off w')
                  = fst (KernelPanicOopsHandler_Read crb m q rbuf off w)"
    if q: "fst (ContainerLookupByPid q w) \<noteq> Some a" for q m rbuf off
  proof (cases "FindPidNsInode w q = a")
    case False
    then show ?thesis by (intro Read_same_view) (simp_all add: w')
  next
    case True
    with q d have "a = 0" by (simp add: lookup_registered)
    with assms(2) show ?thesis by (simp add: lookup_registered)
  qed
  have cached: "fst (Data c path name w') = fst (Data c path name w)"
    if "(c, path, name) \<noteq> (a, Path n, Name n)" for c path name
    using that d by (auto simp: Data_def w')
  show ?thesis using others cached by (simp add: w')
qed

theorem Write_frame_witness:
  "KernelPanicOopsHandler_Write oopsNode pidA ''1'' worldSeeded =
     ((1, None),
      worldSeeded\<lparr>cntrs := (cntrs worldSeeded)(nsA \<mapsto> [(Path oopsNode, Name oopsNode) \<mapsto> ''1'']),
                  calls := [CallContainerLookupByPid pidA,
                            CallSetData nsA (Path oopsNode) (Name oopsNode) ''1'']\<rparr>)
   \<and> fst (Data nsB (Path oopsNode) (Name oopsNode)
            (snd (KernelPanicOopsHandler_Write oopsNode pidA ''1'' worldSeeded)))
       = Some ''0''
   \<and> fst (KernelPanicOopsHandler_Read copyFit oopsNode pidB buf4 0
            (snd (KernelPanicOopsHandler_Write oopsNode pidA ''1'' worldSeeded)))
       = ([CHR ''0'', CHR 0x0A, CHR 0x00, CHR 0x00], 2, None)
   \<and> hostReadLine (snd (KernelPanicOopsHandler_Write oopsNode pidA ''1'' worldSeeded))
       = hostReadLine worldSeeded"
proof -
  have reg: "fst (ContainerLookupByPid pidA worldSeeded) = Some nsA"
    and regB: "fst (ContainerLookupByPid pidB worldSeeded) = Some nsB"
    by (simp_all add: lookup_registered ex_defs)
  have d: "cntrs worldSeeded nsA = Some [(Path oopsNode, Name oopsNode) \<mapsto> ''0'']"
    and dB: "cntrs worldSeeded nsB = Some [(Path oopsNode, Name oopsNode) \<mapsto> ''0'']"
    by (simp_all add: ex_defs)
  have atoi: "Atoi (TrimSpace ''1'') = Inr 1"
    by (simp add: TrimSpace_ex3 Atoi_ex1)
  let ?w1 = "worldSeeded\<lparr>cntrs := (cntrs worldSeeded)(nsA \<mapsto> [(Path oopsNode, Name oopsNode) \<mapsto> ''1'']),
                  calls := [CallContainerLookupByPid pidA,
                            CallSetData nsA (Path oopsNode) (Name oopsNode) ''1'']\<rparr>"
  have e: "calls worldSeeded = []" by (simp add: ex_defs)
  have wr: "KernelPanicOopsHandler_Write oopsNode pidA ''1'' worldSeeded = ((1, None), ?w1)"
    using Write_valid [OF reg d atoi, of oopsNode] by (simp add: TrimSpace_ex3 e)
  have other: "fst (ContainerLookupByPid pidB worldSeeded) \<noteq> Some nsA"
    using regB by (simp add: ex_defs)
  have neq: "(nsB, Path oopsNode, Name oopsNode) \<noteq> (nsA, Path oopsNode, Name oopsNode)"
    by (simp add: ex_defs)
  note fr = Write_frame [OF wr reg, of copyFit]
  from fr neq have cached: "fst (Data nsB (Path oopsNode) (Name oopsNode) ?w1)
      = fst (Data nsB (Path oopsNode) (Name oopsNode) worldSeeded)"
    by blast
  from fr other have rd: "fst (KernelPanicOopsHandler_Read copyFit oopsNode pidB buf4 0 ?w1)
      = fst (KernelPanicOopsHandler_Read copyFit oopsNode pidB buf4 0 worldSeeded)"
    by blast
  from fr have host: "hostReadLine ?w1 = hostReadLine worldSeeded" by blast
  have before: "fst (KernelPanicOopsHandler_Read copyFit oopsNode pidB buf4 0 worldSeeded)
      = copyFit buf4 (''0'' @ newline)"
    using Read_hit [OF _ regB dB, of 0 oopsNode "''0''" copyFit buf4] by simp
  have dataB: "fst (Data nsB (Path oopsNode) (Name oopsNode) worldSeeded) = Some ''0''"
    by (simp add: Data_def dB)
  show ?thesis
    unfolding wr using cached rd host before dataB
    by (simp add: copyFit_def buf4_def newline_def)
qed

text \<open>
  C4. A \<open>Write\<close> whose trimmed content is no number, or a number outside \<open>{0, 1}\<close>,
  returns \<open>EINVAL\<close> and leaves the world exactly as it was: no value is stored, no cached
  value changes, and a read afterwards behaves as it would have before.
\<close>

theorem Write_invalid_rejected:
  assumes "Atoi (TrimSpace buf) = Inl e
         \<or> (Atoi (TrimSpace buf) = Inr i \<and> (i < 0 \<or> 1 < i))"
  shows "KernelPanicOopsHandler_Write n p buf w = ((0, Some (IOerror EINVAL)), w)
       \<and> fst (Data c path name (snd (KernelPanicOopsHandler_Write n p buf w)))
           = fst (Data c path name w)
       \<and> KernelPanicOopsHandler_Read crb m q rbuf off
            (snd (KernelPanicOopsHandler_Write n p buf w))
           = KernelPanicOopsHandler_Read crb m q rbuf off w"
proof -
  from assms have "Atoi (TrimSpace buf) \<noteq> Inr 0" and "Atoi (TrimSpace buf) \<noteq> Inr 1"
    by auto
  then have "KernelPanicOopsHandler_Write n p buf w = ((0, Some (IOerror EINVAL)), w)"
    by (rule Write_invalid)
  then show ?thesis by simp
qed

theorem Write_invalid_rejected_witness:
  "KernelPanicOopsHandler_Write oopsNode pidA ''5'' worldCached
     = ((0, Some (IOerror EINVAL)), worldCached)
   \<and> KernelPanicOopsHandler_Write oopsNode pidA ''on'' worldCached
     = ((0, Some (IOerror EINVAL)), worldCached)
   \<and> fst (Data nsA (Path oopsNode) (Name oopsNode)
            (snd (KernelPanicOopsHandler_Write oopsNode pidA ''5'' worldCached)))
     = Some ''1''"
proof -
  have five: "Atoi (TrimSpace ''5'') = Inl ErrSyntax
            \<or> (Atoi (TrimSpace ''5'') = Inr 5 \<and> ((5::int) < 0 \<or> (1::int) < 5))"
    by (simp add: TrimSpace_ex4 Atoi_ex5)
  have on: "Atoi (TrimSpace ''on'') = Inl ErrSyntax
          \<or> (Atoi (TrimSpace ''on'') = Inr 0 \<and> ((0::int) < 0 \<or> (1::int) < 0))"
    by (simp add: TrimSpace_ex5 Atoi_exon)
  have cached: "fst (Data nsA (Path oopsNode) (Name oopsNode) worldCached) = Some ''1''"
    by (simp add: Data_def ex_defs)
  show ?thesis
    using Write_invalid_rejected [OF five, of oopsNode pidA worldCached nsA "Path oopsNode"
        "Name oopsNode"]
      Write_invalid_rejected [OF on, of oopsNode pidA worldCached]
      cached
    by simp
qed

text \<open>
  C5, as amended. For a pid with no registered container, a \<open>Read\<close> at offset 0 fails
  with "Container not found"; a \<open>Write\<close> fails as well, with "Container not found" when
  the written value is valid and with \<open>EINVAL\<close> when it is not, because the value is
  validated before the container is looked up. In every case the store is unchanged.
\<close>

theorem Unregistered_pid_fails:
  assumes "fst (ContainerLookupByPid p w) = None"
  shows "(sint off \<le> 0 \<longrightarrow>
            KernelPanicOopsHandler_Read crb n p buf off w =
              ((buf, 0, Some (ErrorsNew ''Container not found'')),
               w\<lparr>calls := calls w @ [CallContainerLookupByPid p]\<rparr>))
       \<and> (Atoi (TrimSpace wbuf) = Inr 0 \<or> Atoi (TrimSpace wbuf) = Inr 1 \<longrightarrow>
            KernelPanicOopsHandler_Write n p wbuf w =
              ((0, Some (ErrorsNew ''Container not found'')),
               w\<lparr>calls := calls w @ [CallContainerLookupByPid p]\<rparr>))
       \<and> (Atoi (TrimSpace wbuf) \<noteq> Inr 0 \<and> Atoi (TrimSpace wbuf) \<noteq> Inr 1 \<longrightarrow>
            KernelPanicOopsHandler_Write n p wbuf w = ((0, Some (IOerror EINVAL)), w))
       \<and> cntrs (snd (KernelPanicOopsHandler_Read crb n p buf off w)) = cntrs w
       \<and> cntrs (snd (KernelPanicOopsHandler_Write n p wbuf w)) = cntrs w"
proof -
  have rd: "KernelPanicOopsHandler_Read crb n p buf off w =
              ((buf, 0, Some (ErrorsNew ''Container not found'')),
               w\<lparr>calls := calls w @ [CallContainerLookupByPid p]\<rparr>)" if "sint off \<le> 0"
    using that Read_unregistered [OF _ assms, of off] by simp
  have wv: "KernelPanicOopsHandler_Write n p wbuf w =
              ((0, Some (ErrorsNew ''Container not found'')),
               w\<lparr>calls := calls w @ [CallContainerLookupByPid p]\<rparr>)"
    if "Atoi (TrimSpace wbuf) = Inr 0 \<or> Atoi (TrimSpace wbuf) = Inr 1"
    using that Write_unregistered [OF assms, of wbuf] by auto
  have wi: "KernelPanicOopsHandler_Write n p wbuf w = ((0, Some (IOerror EINVAL)), w)"
    if "Atoi (TrimSpace wbuf) \<noteq> Inr 0 \<and> Atoi (TrimSpace wbuf) \<noteq> Inr 1"
    using that Write_invalid by blast
  have rc: "cntrs (snd (KernelPanicOopsHandler_Read crb n p buf off w)) = cntrs w"
  proof (cases "0 < sint off")
    case True
    then show ?thesis by (simp add: Read_EOF)
  next
    case False
    then show ?thesis using rd by simp
  qed
  have wc: "cntrs (snd (KernelPanicOopsHandler_Write n p wbuf w)) = cntrs w"
  proof (cases "Atoi (TrimSpace wbuf) = Inr 0 \<or> Atoi (TrimSpace wbuf) = Inr 1")
    case True
    then show ?thesis using wv by simp
  next
    case False
    then show ?thesis using wi by simp
  qed
  show ?thesis using rd wv wi rc wc by blast
qed

theorem Unregistered_pid_fails_witness:
  "KernelPanicOopsHandler_Read copyFit oopsNode pidX buf4 0 world0 =
     ((buf4, 0, Some (ErrorsNew ''Container not found'')),
      world0\<lparr>calls := [CallContainerLookupByPid pidX]\<rparr>)
   \<and> KernelPanicOopsHandler_Write oopsNode pidX ''1'' world0 =
     ((0, Some (ErrorsNew ''Container not found'')),
      world0\<lparr>calls := [CallContainerLookupByPid pidX]\<rparr>)
   \<and> KernelPanicOopsHandler_Write oopsNode pidX ''5'' world0 =
     ((0, Some (IOerror EINVAL)), world0)"
proof -
  have unreg: "fst (ContainerLookupByPid pidX world0) = None"
    by (simp add: ContainerLookupByPid_def ex_defs)
  have e: "calls world0 = []" by (simp add: ex_defs)
  show ?thesis
    using Unregistered_pid_fails [OF unreg, of 0 copyFit oopsNode buf4 "''1''"]
      Unregistered_pid_fails [OF unreg, of 0 copyFit oopsNode buf4 "''5''"]
    by (simp add: TrimSpace_ex3 TrimSpace_ex4 Atoi_ex1 Atoi_ex5 e)
qed

text \<open>
  C5 as it was stated fails for a \<open>Write\<close> of \<open>5\<close> from an unregistered pid: the error
  is \<open>EINVAL\<close>, not "Container not found".
\<close>

theorem Unregistered_pid_fails_counterexample:
  "\<not> (fst (ContainerLookupByPid pidX world0) = None
      \<longrightarrow> snd (fst (KernelPanicOopsHandler_Write oopsNode pidX ''5'' world0))
            = Some (ErrorsNew ''Container not found''))"
proof -
  have unreg: "fst (ContainerLookupByPid pidX world0) = None"
    by (simp add: ContainerLookupByPid_def ex_defs)
  have "Atoi (TrimSpace ''5'') \<noteq> Inr 0" and "Atoi (TrimSpace ''5'') \<noteq> Inr 1"
    by (simp_all add: TrimSpace_ex4 Atoi_ex5)
  then have "KernelPanicOopsHandler_Write oopsNode pidX ''5'' world0
               = ((0, Some (IOerror EINVAL)), world0)"
    by (rule Write_invalid)
  with unreg show ?thesis by simp
qed

text \<open>
  C6. For every pid, registered or not, and every offset greater than 0, \<open>Read\<close>
  returns 0 bytes and \<open>io.EOF\<close> and leaves the world as it was: no call to the store or
  to the host is made. \<open>io.EOF\<close> is the end-of-stream value and no failure: the adapter's
  \<open>File.Read\<close> answers it with no error and an empty result.
\<close>

theorem Read_beyond_start_EOF:
  assumes "0 < sint off"
  shows "KernelPanicOopsHandler_Read crb n p buf off w = ((buf, 0, Some EOF), w)
       \<and> (ionode f = Some n \<and> hds n = Some (KernelPanicOopsHandler cfg)
            \<and> readOffset req = off \<and> reslice (respData resp) (readSize req) = Some d
          \<longrightarrow> File_Read crb hds f req resp w
                = Inr (None, resp\<lparr>respData := ([], fst d @ snd d)\<rparr>, w))"
  using assms
  by (auto simp: File_Read_def handler_Read_def Read_EOF reslice_def)

theorem Read_beyond_start_EOF_witness:
  "KernelPanicOopsHandler_Read copyFit oopsNode pidX buf4 2 world0
       = ((buf4, 0, Some EOF), world0)
   \<and> KernelPanicOopsHandler_Read copyFit oopsNode pidA buf4 2 world0
       = ((buf4, 0, Some EOF), world0)
   \<and> File_Read copyFit hds0 oopsFile \<lparr>readPid = pidX, readSize = 4, readOffset = 2\<rparr>
        \<lparr>respData = ([], buf4)\<rparr> world0
       = Inr (None, \<lparr>respData = ([], buf4)\<rparr>, world0)"
proof -
  have off: "0 < sint (2 :: int64)" by simp
  show ?thesis
    using Read_beyond_start_EOF [OF off, where crb = copyFit and n = oopsNode and p = pidX
        and buf = buf4 and w = world0 and f = oopsFile and hds = hds0
        and req = "\<lparr>readPid = pidX, readSize = 4, readOffset = 2\<rparr>"
        and resp = "\<lparr>respData = ([], buf4)\<rparr>" and d = "(buf4, [])"]
      Read_beyond_start_EOF [OF off, where crb = copyFit and n = oopsNode and p = pidA
        and buf = buf4 and w = world0]
    by (simp add: oopsFile_def hds0_def oopsNode_def oopsHandler_def reslice_def buf4_def)
qed

text \<open>
  C7. \<open>Open\<close> returns \<open>EACCES\<close> when the open flags are neither \<open>O_RDONLY\<close> nor
  \<open>O_WRONLY\<close>, without touching the host; with acceptable flags it opens the host file
  and returns \<open>EIO\<close> when that fails, and succeeds otherwise. The adapter's \<open>File.Open\<close>
  hands a rejected open back with the error and no handle, so that no read or write can
  follow on it; the container store is not consulted on any of these paths.
\<close>

theorem Open_access_modes:
  "KernelPanicOopsHandler_Open n p w =
     (if OpenFlags n \<noteq> O_RDONLY \<and> OpenFlags n \<noteq> O_WRONLY then (Some (IOerror EACCES), w)
      else if hostOpen w (Path n) \<noteq> None
           then (Some (IOerror EIO), w\<lparr>calls := calls w @ [CallOpen (Path n)]\<rparr>)
           else (None, w\<lparr>calls := calls w @ [CallOpen (Path n)]\<rparr>))
   \<and> (ionode f = Some n0 \<and> n = n0\<lparr>OpenFlags := uint (openFlags req)\<rparr>
        \<and> hds n = Some (KernelPanicOopsHandler cfg)
      \<longrightarrow> File_Open hds f req resp w =
            (if OpenFlags n \<noteq> O_RDONLY \<and> OpenFlags n \<noteq> O_WRONLY
             then Inr ((None, Some (IOerror EACCES)), f\<lparr>ionode := Some n\<rparr>, resp, w)
             else if hostOpen w (Path n) \<noteq> None
             then Inr ((None, Some (IOerror EIO)), f\<lparr>ionode := Some n\<rparr>, resp,
                       w\<lparr>calls := calls w @ [CallOpen (Path n)]\<rparr>)
             else Inr ((Some (f\<lparr>ionode := Some n\<rparr>), None), f\<lparr>ionode := Some n\<rparr>,
                       resp\<lparr>openRespFlags := openRespFlags resp OR OpenDirectIO\<rparr>,
                       w\<lparr>calls := calls w @ [CallOpen (Path n)]\<rparr>)))"
  by (auto simp: KernelPanicOopsHandler_Open_def IOnode_Open_def called_def Let_def
      File_Open_def handler_Open_def split: option.splits)

theorem Open_access_modes_witness:
  "KernelPanicOopsHandler_Open (oopsNode\<lparr>OpenFlags := 2\<rparr>) pidA world0
     = (Some (IOerror EACCES), world0)
   \<and> File_Open hds0 oopsFile \<lparr>openPid = pidA, openFlags = 2\<rparr> \<lparr>openRespFlags = 0\<rparr> world0
     = Inr ((None, Some (IOerror EACCES)),
            oopsFile\<lparr>ionode := Some (oopsNode\<lparr>OpenFlags := 2\<rparr>)\<rparr>,
            \<lparr>openRespFlags = 0\<rparr>, world0)
   \<and> File_Open hds0 oopsFile \<lparr>openPid = pidA, openFlags = 0\<rparr> \<lparr>openRespFlags = 0\<rparr>
        worldNoOpen
     = Inr ((None, Some (IOerror EIO)), oopsFile, \<lparr>openRespFlags = 0\<rparr>,
            worldNoOpen\<lparr>calls := [CallOpen (Path oopsNode)]\<rparr>)
   \<and> File_Open hds0 oopsFile \<lparr>openPid = pidA, openFlags = 1\<rparr> \<lparr>openRespFlags = 0\<rparr> world0
     = Inr ((Some (oopsFile\<lparr>ionode := Some (oopsNode\<lparr>OpenFlags := 1\<rparr>)\<rparr>), None),
            oopsFile\<lparr>ionode := Some (oopsNode\<lparr>OpenFlags := 1\<rparr>)\<rparr>,
            \<lparr>openRespFlags = 1\<rparr>,
            world0\<lparr>calls := [CallOpen (Path oopsNode)]\<rparr>)"
  using Open_access_modes [where n = "oopsNode\<lparr>OpenFlags := 2\<rparr>" and p = pidA and w = world0
      and f = oopsFile and ?n0.0 = oopsNode and hds = hds0
      and req = "\<lparr>openPid = pidA, openFlags = 2\<rparr>" and resp = "\<lparr>openRespFlags = 0\<rparr>"]
    Open_access_modes [where n = "oopsNode\<lparr>OpenFlags := 0\<rparr>" and p = pidA and w = worldNoOpen
      and f = oopsFile and ?n0.0 = oopsNode and hds = hds0
      and req = "\<lparr>openPid = pidA, openFlags = 0\<rparr>" and resp = "\<lparr>openRespFlags = 0\<rparr>"]
    Open_access_modes [where n = "oopsNode\<lparr>OpenFlags := 1\<rparr>" and p = pidA and w = world0
      and f = oopsFile and ?n0.0 = oopsNode and hds = hds0
      and req = "\<lparr>openPid = pidA, openFlags = 1\<rparr>" and resp = "\<lparr>openRespFlags = 0\<rparr>"]
  by (simp add: ex_defs O_RDONLY_def O_WRONLY_def OpenDirectIO_def)

text \<open>
  C8. The adapter's \<open>Setattr\<close> succeeds exactly when the request includes a size change
  (bit 3 of its \<open>Valid\<close> mask), whatever else it asks for, and returns \<open>EPERM\<close> otherwise;
  in both cases nothing is applied: the file and the response are as before.
\<close>

theorem Setattr_size_only:
  "File_Setattr f req resp =
     (if Valid_Size (Valid req) then (None, f, resp) else (Some (FuseErrno EPERM), f, resp))
   \<and> Valid_Size (Valid req) = bit (Valid req) 3"
  by (simp add: File_Setattr_def Valid_Size_bit)

theorem Setattr_size_only_witness:
  "File_Setattr oopsFile \<lparr>Valid = 9, setSize = 0, setMode = 511, setUid = 0, setGid = 0\<rparr>
       \<lparr>respAttr = attr oopsFile\<rparr>
     = (None, oopsFile, \<lparr>respAttr = attr oopsFile\<rparr>)
   \<and> File_Setattr oopsFile \<lparr>Valid = 1, setSize = 0, setMode = 511, setUid = 0, setGid = 0\<rparr>
       \<lparr>respAttr = attr oopsFile\<rparr>
     = (Some (FuseErrno EPERM), oopsFile, \<lparr>respAttr = attr oopsFile\<rparr>)"
  using Setattr_size_only
      [of oopsFile "\<lparr>Valid = 9, setSize = 0, setMode = 511, setUid = 0, setGid = 0\<rparr>"
        "\<lparr>respAttr = attr oopsFile\<rparr>"]
    Setattr_size_only
      [of oopsFile "\<lparr>Valid = 1, setSize = 0, setMode = 511, setUid = 0, setGid = 0\<rparr>"
        "\<lparr>respAttr = attr oopsFile\<rparr>"]
  by simp

text \<open>
  C9. \<open>Lookup\<close> of the binfmt_misc register handler returns no file information and
  \<open>ENOENT\<close>, for every node and every pid.
\<close>

theorem FsBinfmtRegister_Lookup_ENOENT:
  "FsBinfmtRegisterHandler_Lookup n p = (None, Some (IOerror ENOENT))"
  by (simp add: FsBinfmtRegisterHandler_Lookup_def)

text \<open>
  C10. \<open>Write\<close> validates and stores the trimmed buffer: for a registered container the
  write succeeds exactly when the trimmed buffer parses as 0 or 1, the value then held by
  the container is the trimmed string, which neither starts nor ends with white space and
  is a piece of the buffer, and the byte count reported is the length of the buffer as it
  was written.
\<close>

theorem Write_trims:
  assumes "fst (ContainerLookupByPid p w) = Some c"
  shows "(Atoi (TrimSpace buf) = Inr 0 \<or> Atoi (TrimSpace buf) = Inr 1 \<longrightarrow>
            fst (KernelPanicOopsHandler_Write n p buf w) = (int (length buf), None)
          \<and> fst (Data c (Path n) (Name n) (snd (KernelPanicOopsHandler_Write n p buf w)))
              = Some (TrimSpace buf))
       \<and> (Atoi (TrimSpace buf) \<noteq> Inr 0 \<and> Atoi (TrimSpace buf) \<noteq> Inr 1 \<longrightarrow>
            KernelPanicOopsHandler_Write n p buf w = ((0, Some (IOerror EINVAL)), w))
       \<and> leadingSpace (TrimSpace buf) = 0 \<and> trailingSpace (TrimSpace buf) = 0
       \<and> (\<exists>a b. buf = a @ TrimSpace buf @ b)"
proof -
  from assms obtain d where d: "cntrs w c = Some d"
    by (auto simp: lookup_registered)
  have ok: "fst (KernelPanicOopsHandler_Write n p buf w) = (int (length buf), None)
          \<and> fst (Data c (Path n) (Name n) (snd (KernelPanicOopsHandler_Write n p buf w)))
              = Some (TrimSpace buf)"
    if "Atoi (TrimSpace buf) = Inr 0 \<or> Atoi (TrimSpace buf) = Inr 1"
  proof -
    from that obtain i where i: "Atoi (TrimSpace buf) = Inr i" "0 \<le> i" "i \<le> 1" by auto
    show ?thesis by (simp add: Write_valid [OF assms d i] Data_def)
  qed
  have bad: "KernelPanicOopsHandler_Write n p buf w = ((0, Some (IOerror EINVAL)), w)"
    if "Atoi (TrimSpace buf) \<noteq> Inr 0 \<and> Atoi (TrimSpace buf) \<noteq> Inr 1"
    using that Write_invalid by blast
  show ?thesis using ok bad TrimSpace_stripped [of buf] TrimSpace_infix [of buf] by blast
qed

theorem Write_trims_witness:
  "fst (KernelPanicOopsHandler_Write oopsNode pidA [CHR 0x20, CHR ''1'', CHR 0x0A] world0)
     = (3, None)
   \<and> fst (Data nsA (Path oopsNode) (Name oopsNode)
            (snd (KernelPanicOopsHandler_Write oopsNode pidA [CHR 0x20, CHR ''1'', CHR 0x0A]
                    world0)))
     = Some ''1''"
proof -
  have reg: "fst (ContainerLookupByPid pidA world0) = Some nsA"
    by (simp add: lookup_registered ex_defs)
  show ?thesis
    using Write_trims [OF reg, of "[CHR 0x20, CHR ''1'', CHR 0x0A]" oopsNode]
    by (simp add: TrimSpace_ex1 Atoi_ex1)
qed

end
